theory Spec2Isabelle
  imports Main
begin

section \<open>Strings: the functions of Go's \<open>strings\<close> package the code calls\<close>

text \<open>
  A Go string is a byte sequence; it is modelled as a \<open>string\<close> (a list of characters).
\<close>

text \<open>\<open>strings.HasPrefix(s, prefix)\<close>.\<close>

fun HasPrefix :: "string \<Rightarrow> string \<Rightarrow> bool" where
  "HasPrefix s [] = True"
| "HasPrefix [] (p # ps) = False"
| "HasPrefix (c # cs) (p # ps) = (c = p \<and> HasPrefix cs ps)"

text \<open>\<open>strings.Contains(s, substr)\<close>: \<open>substr\<close> occurs at some position of \<open>s\<close>.\<close>

fun Contains :: "string \<Rightarrow> string \<Rightarrow> bool" where
  "Contains [] sub = (sub = [])"
| "Contains (c # cs) sub = (HasPrefix (c # cs) sub \<or> Contains cs sub)"

text \<open>
  \<open>strings.SplitN(s, sep, n)\<close> for a separator of one byte (the code calls it with
  \<open>"/"\<close>) and \<open>n \<ge> 0\<close>: no substring for \<open>n = 0\<close>, otherwise at most \<open>n\<close>
  substrings, the last one being the unsplit remainder.
\<close>

fun SplitN :: "string \<Rightarrow> char \<Rightarrow> nat \<Rightarrow> string list" where
  "SplitN s sep 0 = []"
| "SplitN s sep (Suc 0) = [s]"
| "SplitN s sep (Suc (Suc n)) =
     (if sep \<in> set s
      then takeWhile (\<lambda>c. c \<noteq> sep) s # SplitN (tl (dropWhile (\<lambda>c. c \<noteq> sep) s)) sep (Suc n)
      else [s])"

section \<open>internal/doctor/beads\_sync\_check.go\<close>

subsection \<open>The file system the check reads and writes\<close>

text \<open>
  \<open>Fix\<close> reaches the file system through \<open>os.ReadFile\<close>, \<open>os.OpenFile\<close> and
  \<open>File.WriteString\<close>. Each of them can fail, so the model of the file system holds
  what decides the failures: whether a path exists, whether it is a directory, the
  permissions of a regular file, and the room left on the device.
\<close>

datatype fs_error = ENOENT | EISDIR | EACCES | ENOSPC

record regfile =
  contents :: string
  readable :: bool
  writable :: bool

datatype node = Directory | Regular regfile

record filesys =
  nodes :: "string \<Rightarrow> node option"
  room :: nat

text \<open>\<open>os.ReadFile(path)\<close>.\<close>

definition ReadFile :: "filesys \<Rightarrow> string \<Rightarrow> fs_error + string" where
  "ReadFile fs path =
     (case nodes fs path of
        None \<Rightarrow> Inl ENOENT
      | Some Directory \<Rightarrow> Inl EISDIR
      | Some (Regular f) \<Rightarrow> if readable f then Inr (contents f) else Inl EACCES)"

text \<open>
  \<open>os.OpenFile(path, os.O_APPEND|os.O_WRONLY, 0644)\<close>: there is no \<open>O_CREATE\<close>, so a
  missing file is an error; on success the handle is the regular file at \<open>path\<close>.
\<close>

definition OpenFile_append :: "filesys \<Rightarrow> string \<Rightarrow> fs_error + regfile" where
  "OpenFile_append fs path =
     (case nodes fs path of
        None \<Rightarrow> Inl ENOENT
      | Some Directory \<Rightarrow> Inl EISDIR
      | Some (Regular f) \<Rightarrow> if writable f then Inr f else Inl EACCES)"

text \<open>
  \<open>f.WriteString(s)\<close> on a handle opened with \<open>O_APPEND\<close>: the bytes go to the end of
  the file. When the device has less room than \<open>s\<close> needs, the bytes that fit are
  written and the call returns an error.
\<close>

definition WriteString :: "filesys \<Rightarrow> string \<Rightarrow> regfile \<Rightarrow> string \<Rightarrow> fs_error option \<times> filesys" where
  "WriteString fs path f s =
     (let written = take (room fs) s;
          fs' = fs\<lparr>nodes := (nodes fs)(path \<mapsto> Regular (f\<lparr>contents := contents f @ written\<rparr>)),
                   room := room fs - length written\<rparr>
      in (if length s \<le> room fs then None else Some ENOSPC, fs'))"

text \<open>
  \<open>filepath.Join(a, b)\<close> for two elements: empty elements are ignored, the others are
  joined by the separator. (The cleaning of the result, which removes \<open>.\<close>, \<open>..\<close> and
  doubled separators, is left out: the path is only used as the name of the file.)
\<close>

definition filepath_Join :: "string \<Rightarrow> string \<Rightarrow> string" where
  "filepath_Join a b = (if a = [] then b else if b = [] then a else a @ ''/'' @ b)"

subsection \<open>The check\<close>

text \<open>
  \<open>CheckContext\<close> is declared in another file of the package. \<open>Fix\<close> reads its field
  \<open>RigName\<close> and calls its method \<open>RigPath()\<close>; the record holds the field and the
  value the method returns.
\<close>

record CheckContext =
  RigName :: string
  RigPath :: string

definition configPath :: "CheckContext \<Rightarrow> string" where
  "configPath ctx = filepath_Join (filepath_Join (RigPath ctx) ''.beads'') ''config.yaml''"

definition sync_branch_line :: string where
  "sync_branch_line = ''sync-branch: beads-sync'' @ [CHR 0x0A]"

text \<open>
  \<open>BeadsSyncBranchCheck.Fix\<close>. The result is the returned error (\<open>None\<close> for \<open>nil\<close>)
  and the file system the call leaves.
\<close>

definition Fix :: "CheckContext \<Rightarrow> filesys \<Rightarrow> fs_error option \<times> filesys" where
  "Fix ctx fs =
     (if RigName ctx = [] then (None, fs)
      else case ReadFile fs (configPath ctx) of
        Inl err \<Rightarrow> (Some err, fs)
      | Inr content \<Rightarrow>
          (if Contains content ''sync-branch:'' then (None, fs)
           else (case OpenFile_append fs (configPath ctx) of
             Inl err \<Rightarrow> (Some err, fs)
           | Inr f \<Rightarrow> WriteString fs (configPath ctx) f sync_branch_line)))"

section \<open>The command \<open>gt mq migrate\<close>\<close>

subsection \<open>Data\<close>

text \<open>
  \<open>beads.Issue\<close>, \<open>beads.MRFields\<close> and \<open>mrqueue.MR\<close> are declared in other packages;
  the records hold the fields \<open>runMqMigrate\<close> reads and writes.
\<close>

record Issue =
  ID :: string
  Title :: string
  Type :: string
  Status :: string
  Priority :: int
  Description :: string

record MRFields =
  Branch :: string
  Target :: string
  SourceIssue :: string
  Worker :: string

record MR =
  MR_ID :: string
  MR_Branch :: string
  MR_Target :: string
  MR_SourceIssue :: string
  MR_Worker :: string
  MR_Rig :: string
  MR_Title :: string
  MR_Priority :: int

text \<open>
  The functions of the packages \<open>workspace\<close>, \<open>beads\<close>, \<open>mrqueue\<close> and \<open>os\<close> the
  command calls, and \<open>findCurrentRig\<close> of its own package, are not part of the file:
  they are parameters. \<open>'e\<close> is the type of their errors, \<open>'h\<close> the queue handle
  \<open>mrqueue.NewFromWorkdir\<close> returns and \<open>'q\<close> the state of the queue on disk, which
  \<open>Submit\<close> changes. \<open>bd_List\<close> is \<open>beads.New(cwd).List(beads.ListOptions{Priority: -1})\<close>.
\<close>

record ('e, 'h, 'q) collaborators =
  FindFromCwdOrError :: "'e + string"
  findCurrentRig :: "string \<Rightarrow> 'e + string"
  Getwd :: "'e + string"
  NewFromWorkdir :: "string \<Rightarrow> 'e + 'h"
  mq_List :: "'h \<Rightarrow> 'q \<Rightarrow> MR list \<times> 'e option"
  IsNotExist :: "'e \<Rightarrow> bool"
  bd_List :: "string \<Rightarrow> 'e + Issue list"
  ParseMRFields :: "Issue \<Rightarrow> MRFields option"
  mq_Submit :: "'h \<Rightarrow> 'q \<Rightarrow> MR \<Rightarrow> 'e option \<times> 'q"

text \<open>An error the command returns: \<open>fmt.Errorf("...: %w", err)\<close>, or \<open>err\<close> as it is.\<close>

datatype 'e cmd_error = Wrapped string 'e | Unwrapped 'e

text \<open>The lines the command prints, one constructor for each \<open>fmt\<close> call.\<close>

datatype 'e out_line =
    NoStaleFound
  | AllAlreadyInQueue
  | FoundToMigrate nat
  | Skipping string
  | WouldMigrate string string string string
  | SubmitFailed string 'e
  | MigratedOne string string
  | BlankLine
  | DryRunSummary nat
  | RunWithoutDryRun
  | MigratedSummary nat
  | RefineryWillProcess

text \<open>The lines that report a call of \<open>mq.Submit\<close> (lines 153 and 158).\<close>

fun reports_submit :: "'e out_line \<Rightarrow> bool" where
  "reports_submit (SubmitFailed i err) = True"
| "reports_submit (MigratedOne i t) = True"
| "reports_submit l = False"

text \<open>
  What a run leaves: the returned error, the queue, the entries \<open>mq.Submit\<close> was called
  with (in call order), and the printed lines.
\<close>

record ('e, 'q) outcome =
  ret :: "'e cmd_error option"
  queue :: 'q
  submits :: "MR list"
  printed :: "'e out_line list"

subsection \<open>The command\<close>

text \<open>Lines 72 to 75: the set of the ids in the queue, as a \<open>map[string]bool\<close>.\<close>

definition existingIDs :: "MR list \<Rightarrow> string \<Rightarrow> bool" where
  "existingIDs existingMRs = foldl (\<lambda>m mr. m(MR_ID mr := True)) (\<lambda>_. False) existingMRs"

text \<open>Lines 123 to 133: the worker, from the fields or else from the branch name.\<close>

definition extract_worker :: "MRFields \<Rightarrow> string" where
  "extract_worker mrFields =
     (if Worker mrFields = [] then
        (if HasPrefix (Branch mrFields) ''polecat/'' then
           (let parts = SplitN (Branch mrFields) (CHR ''/'') 3
            in if length parts \<ge> 2 then parts ! 1 else [])
         else [])
      else Worker mrFields)"

text \<open>Lines 141 to 150.\<close>

definition mqEntry :: "string \<Rightarrow> Issue \<Rightarrow> MRFields \<Rightarrow> MR" where
  "mqEntry rigName issue mrFields =
     \<lparr>MR_ID = ID issue, MR_Branch = Branch mrFields, MR_Target = Target mrFields,
      MR_SourceIssue = SourceIssue mrFields, MR_Worker = extract_worker mrFields,
      MR_Rig = rigName, MR_Title = Title issue, MR_Priority = Priority issue\<rparr>"

text \<open>The state of the loop of lines 114 to 162.\<close>

record ('e, 'q) loop_state =
  ls_queue :: 'q
  ls_submits :: "MR list"
  ls_printed :: "'e out_line list"
  migrated :: nat

text \<open>One iteration of the loop of lines 114 to 162.\<close>

definition migrate_one ::
  "('e, 'h, 'q) collaborators \<Rightarrow> bool \<Rightarrow> string \<Rightarrow> 'h \<Rightarrow>
   ('e, 'q) loop_state \<Rightarrow> Issue \<Rightarrow> ('e, 'q) loop_state" where
  "migrate_one C mqMigrateDryRun rigName mq st issue =
     (case ParseMRFields C issue of
        None \<Rightarrow> st\<lparr>ls_printed := ls_printed st @ [Skipping (ID issue)]\<rparr>
      | Some mrFields \<Rightarrow>
          (if mqMigrateDryRun then
             st\<lparr>ls_printed := ls_printed st @
                  [WouldMigrate (ID issue) (Title issue) (Branch mrFields) (Target mrFields)]\<rparr>
           else
             (case mq_Submit C mq (ls_queue st) (mqEntry rigName issue mrFields) of
                (Some err, q') \<Rightarrow>
                  st\<lparr>ls_queue := q',
                     ls_submits := ls_submits st @ [mqEntry rigName issue mrFields],
                     ls_printed := ls_printed st @ [SubmitFailed (ID issue) err]\<rparr>
              | (None, q') \<Rightarrow>
                  st\<lparr>ls_queue := q',
                     ls_submits := ls_submits st @ [mqEntry rigName issue mrFields],
                     ls_printed := ls_printed st @ [MigratedOne (ID issue) (Title issue)],
                     migrated := migrated st + 1\<rparr>)))"

text \<open>
  Lines 85 to 174: what the command does once it has the rig name, the queue handle, the
  entries of the queue and the beads.
\<close>

definition migrate ::
  "('e, 'h, 'q) collaborators \<Rightarrow> bool \<Rightarrow> string \<Rightarrow> 'h \<Rightarrow> MR list \<Rightarrow> Issue list \<Rightarrow> 'q \<Rightarrow>
   ('e, 'q) outcome" where
  "migrate C mqMigrateDryRun rigName mq existingMRs allIssues q =
     (let issues = filter (\<lambda>issue. Type issue = ''merge-request'' \<and> Status issue = ''open'') allIssues
      in if length issues = 0 then
           \<lparr>ret = None, queue = q, submits = [], printed = [NoStaleFound]\<rparr>
         else
           (let toMigrate = filter (\<lambda>issue. \<not> existingIDs existingMRs (ID issue)) issues
            in if length toMigrate = 0 then
                 \<lparr>ret = None, queue = q, submits = [], printed = [AllAlreadyInQueue]\<rparr>
               else
                 (let st = foldl (migrate_one C mqMigrateDryRun rigName mq)
                             \<lparr>ls_queue = q, ls_submits = [],
                              ls_printed = [FoundToMigrate (length toMigrate)], migrated = 0\<rparr>
                             toMigrate
                  in \<lparr>ret = None, queue = ls_queue st, submits = ls_submits st,
                      printed = ls_printed st @ [BlankLine] @
                        (if mqMigrateDryRun
                         then [DryRunSummary (length toMigrate), RunWithoutDryRun]
                         else [MigratedSummary (migrated st), RefineryWillProcess])\<rparr>)))"

text \<open>
  Lines 42 to 83: the workspace, the rig, the queue handle, the entries of the queue
  and all beads, or the error the command returns.
\<close>

definition gather ::
  "('e, 'h, 'q) collaborators \<Rightarrow> 'q \<Rightarrow> 'e cmd_error + (string \<times> 'h \<times> MR list \<times> Issue list)" where
  "gather C q =
     (case FindFromCwdOrError C of
        Inl err \<Rightarrow> Inl (Wrapped ''not in a Gas Town workspace'' err)
      | Inr townRoot \<Rightarrow>
     (case findCurrentRig C townRoot of
        Inl err \<Rightarrow> Inl (Unwrapped err)
      | Inr rigName \<Rightarrow>
     (case Getwd C of
        Inl err \<Rightarrow> Inl (Wrapped ''getting current directory'' err)
      | Inr cwd \<Rightarrow>
     (case NewFromWorkdir C cwd of
        Inl err \<Rightarrow> Inl (Wrapped ''accessing merge queue'' err)
      | Inr mq \<Rightarrow>
     (case mq_List C mq q of
        (existingMRs, Some err) \<Rightarrow>
          (if \<not> IsNotExist C err then Inl (Wrapped ''listing existing queue'' err)
           else (case bd_List C cwd of
                   Inl err \<Rightarrow> Inl (Wrapped ''listing all beads'' err)
                 | Inr allIssues \<Rightarrow> Inr (rigName, mq, existingMRs, allIssues)))
      | (existingMRs, None) \<Rightarrow>
          (case bd_List C cwd of
             Inl err \<Rightarrow> Inl (Wrapped ''listing all beads'' err)
           | Inr allIssues \<Rightarrow> Inr (rigName, mq, existingMRs, allIssues)))))))"

text \<open>
  \<open>runMqMigrate\<close>, with the flag \<open>--dry-run\<close> (the variable \<open>mqMigrateDryRun\<close>) and
  the queue as arguments.
\<close>

definition runMqMigrate :: "('e, 'h, 'q) collaborators \<Rightarrow> bool \<Rightarrow> 'q \<Rightarrow> ('e, 'q) outcome" where
  "runMqMigrate C mqMigrateDryRun q =
     (case gather C q of
        Inl err \<Rightarrow> \<lparr>ret = Some err, queue = q, submits = [], printed = []\<rparr>
      | Inr (rigName, mq, existingMRs, allIssues) \<Rightarrow>
          migrate C mqMigrateDryRun rigName mq existingMRs allIssues q)"

section \<open>The molecule engine: variable substitution and the template catalog\<close>

text \<open>
  The repository describes the molecule engine in \<open>docs/molecules.md\<close>; the code of
  the engine (the commands \<open>bd mol ...\<close>) is not among its source files. The
  definitions of this section follow the specification and the document.
\<close>

subsection \<open>Errors\<close>

text \<open>
  Modelled from the spec: the error taxonomy of the engine (specification, section 7);
  the engine's own error type is not in the sources.
\<close>

datatype engine_error =
    NotFound
  | InvalidTemplate
  | MissingVariable string
  | DuplicateInstance
  | CycleError
  | Blocked
  | AlreadyFinalized
  | StorageError

subsection \<open>Variable substitution\<close>

text \<open>
  Modelled from the spec: the pieces of a text pattern. The document writes a
  placeholder as \<open>{{var}}\<close>; everything else is text. The engine's parser is not in
  the sources.
\<close>

datatype token = Text char | Placeholder string

text \<open>
  Modelled from the spec: the end of a placeholder. \<open>closing s\<close> looks for the first
  \<open>}}\<close> in \<open>s\<close> and gives the name before it and the text after it; the engine's
  parser is not in the sources.
\<close>

fun closing :: "string \<Rightarrow> (string \<times> string) option" where
  "closing [] = None"
| "closing [c] = None"
| "closing (c # d # cs) =
     (if c = CHR ''}'' \<and> d = CHR ''}'' then Some ([], cs)
      else (case closing (d # cs) of
              None \<Rightarrow> None
            | Some (name, rest) \<Rightarrow> Some (c # name, rest)))"

lemma closing_shorter: "closing s = Some (name, rest) \<Longrightarrow> length rest < length s"
  by (induction s arbitrary: name rule: closing.induct) (auto split: if_splits option.splits)

text \<open>
  Modelled from the spec: the placeholders of a text, read from left to right. A
  \<open>{{\<close> opens a placeholder that the next \<open>}}\<close> closes; a \<open>{{\<close> that is never
  closed is text. The engine's parser is not in the sources.
\<close>

function tokens :: "string \<Rightarrow> token list" where
  "tokens [] = []"
| "tokens [c] = [Text c]"
| "tokens (c # d # cs) =
     (if c = CHR ''{'' \<and> d = CHR ''{'' then
        (case closing cs of
           None \<Rightarrow> map Text (c # d # cs)
         | Some (name, rest) \<Rightarrow> Placeholder name # tokens rest)
      else Text c # tokens (d # cs))"
  by pat_completeness auto
termination
  by (relation "measure length") (auto dest: closing_shorter)

text \<open>
  Modelled from the spec: the names of the placeholders "appearing in \<open>text\<close>"
  (section 4.2), in the order they appear.
\<close>

fun placeholder_names :: "token list \<Rightarrow> string list" where
  "placeholder_names [] = []"
| "placeholder_names (Text c # ts) = placeholder_names ts"
| "placeholder_names (Placeholder name # ts) = name # placeholder_names ts"

definition placeholders :: "string \<Rightarrow> string list" where
  "placeholders text = placeholder_names (tokens text)"

text \<open>
  Modelled from the spec: \<open>resolve(text, bindings)\<close> of section 4.2, whose code is
  not in the sources. "Every placeholder appearing in text must have a corresponding
  entry in bindings; a missing binding fails with MissingVariable naming the
  placeholder." The text is kept, each placeholder is replaced by the value bound to
  its name, and the first placeholder without a binding is the one the error names.
\<close>

fun substitute :: "token list \<Rightarrow> (string \<rightharpoonup> string) \<Rightarrow> engine_error + string" where
  "substitute [] bindings = Inr []"
| "substitute (Text c # ts) bindings =
     (case substitute ts bindings of Inl err \<Rightarrow> Inl err | Inr out \<Rightarrow> Inr (c # out))"
| "substitute (Placeholder name # ts) bindings =
     (case bindings name of
        None \<Rightarrow> Inl (MissingVariable name)
      | Some v \<Rightarrow>
          (case substitute ts bindings of Inl err \<Rightarrow> Inl err | Inr out \<Rightarrow> Inr (v @ out)))"

definition resolve :: "string \<Rightarrow> (string \<rightharpoonup> string) \<Rightarrow> engine_error + string" where
  "resolve text bindings = substitute (tokens text) bindings"

subsection \<open>The template catalog\<close>

text \<open>
  Modelled from the spec: a child-step template (section 3): title and description
  patterns, the declared dependencies as positions of sibling steps, and the optional
  fan-in marker. The engine's types are not in the sources.
\<close>

record StepTemplate =
  step_title :: string
  step_description :: string
  step_needs :: "nat list"
  step_fan_in :: bool

text \<open>
  Modelled from the spec: a template (section 3, and the JSON record of the document:
  \<open>id\<close>, \<open>title\<close>, \<open>description\<close>, \<open>labels\<close>, \<open>issue_type\<close>). The engine's types
  are not in the sources.
\<close>

record Template =
  template_id :: string
  title :: string
  description :: string
  labels :: "string list"
  children :: "StepTemplate list"
  issue_type :: string

text \<open>
  Modelled from the spec: a record as a source holds it. It may be malformed, which
  section 4.1 spells out as "missing id, or structurally invalid child list": the id
  and the child list are optional here, \<open>None\<close> standing for the malformed case.
\<close>

record source_record =
  rec_id :: "string option"
  rec_title :: string
  rec_description :: string
  rec_labels :: "string list"
  rec_children :: "StepTemplate list option"
  rec_issue_type :: string

text \<open>
  Modelled from the spec: reading one record of a source; a malformed record gives no
  template ("is skipped with a warning; it does not abort the whole load").
\<close>

definition read_record :: "source_record \<Rightarrow> Template option" where
  "read_record r =
     (case rec_id r of
        None \<Rightarrow> None
      | Some i \<Rightarrow>
          (case rec_children r of
             None \<Rightarrow> None
           | Some cs \<Rightarrow>
               Some \<lparr>template_id = i, title = rec_title r, description = rec_description r,
                     labels = rec_labels r, children = cs, issue_type = rec_issue_type r\<rparr>))"

type_synonym catalog = "string \<rightharpoonup> Template"

text \<open>
  Modelled from the spec: \<open>load(sources)\<close> of section 4.1, whose code is not in the
  sources. "Sources are consulted in ascending precedence; a later source's template
  with the same id fully replaces an earlier one." The sources are read in order, each
  source record by record, and a template read replaces the entry of its id.
\<close>

definition load_record :: "catalog \<Rightarrow> source_record \<Rightarrow> catalog" where
  "load_record m r = (case read_record r of None \<Rightarrow> m | Some t \<Rightarrow> m(template_id t \<mapsto> t))"

definition load_source :: "catalog \<Rightarrow> source_record list \<Rightarrow> catalog" where
  "load_source m source = foldl load_record m source"

definition load :: "source_record list list \<Rightarrow> catalog" where
  "load sources = foldl load_source Map.empty sources"

text \<open>
  The definition a single source gives to an id: the last well-formed record of the
  source that carries the id, if there is one. This is the reading of "source S
  defines template id X" the precedence property is stated with.
\<close>

definition defined_in :: "source_record list \<Rightarrow> string \<Rightarrow> Template option" where
  "defined_in source x = find (\<lambda>t. template_id t = x) (rev (List.map_filter read_record source))"

section \<open>Example inputs\<close>

text \<open>A rig whose beads configuration has no sync branch yet, before and after \<open>Fix\<close>.\<close>

definition example_fs :: filesys where
  "example_fs =
     \<lparr>nodes = [''/town/gastown/.beads/config.yaml'' \<mapsto>
                Regular \<lparr>contents = ''issue-prefix: gt'' @ [CHR 0x0A], readable = True, writable = True\<rparr>],
      room = 100\<rparr>"

definition example_fs_fixed :: filesys where
  "example_fs_fixed =
     \<lparr>nodes = [''/town/gastown/.beads/config.yaml'' \<mapsto>
                Regular \<lparr>contents = ''issue-prefix: gt'' @ [CHR 0x0A] @ ''sync-branch: beads-sync'' @ [CHR 0x0A],
                         readable = True, writable = True\<rparr>],
      room = 76\<rparr>"

definition example_ctx :: CheckContext where
  "example_ctx = \<lparr>RigName = ''gastown'', RigPath = ''/town/gastown''\<rparr>"

definition example_issues :: "Issue list" where
  "example_issues =
     [\<lparr>ID = ''gt-1'', Title = ''Merge nux'', Type = ''merge-request'', Status = ''open'',
       Priority = 2, Description = ''polecat/nux/gt-7''\<rparr>,
      \<lparr>ID = ''gt-2'', Title = ''A task'', Type = ''task'', Status = ''open'',
       Priority = 1, Description = ''polecat/ace/gt-8''\<rparr>,
      \<lparr>ID = ''gt-3'', Title = ''Merged'', Type = ''merge-request'', Status = ''closed'',
       Priority = 1, Description = ''polecat/ace/gt-9''\<rparr>,
      \<lparr>ID = ''gt-4'', Title = ''Queued'', Type = ''merge-request'', Status = ''open'',
       Priority = 1, Description = ''polecat/toast/gt-10''\<rparr>,
      \<lparr>ID = ''gt-5'', Title = ''No fields'', Type = ''merge-request'', Status = ''open'',
       Priority = 1, Description = []\<rparr>]"

definition example_queue :: "MR list" where
  "example_queue =
     [\<lparr>MR_ID = ''gt-4'', MR_Branch = ''polecat/toast/gt-10'', MR_Target = ''main'',
       MR_SourceIssue = ''gt-10'', MR_Worker = ''toast'', MR_Rig = ''gastown'',
       MR_Title = ''Queued'', MR_Priority = 1\<rparr>]"

definition example_collaborators :: "(string, unit, MR list) collaborators" where
  "example_collaborators =
     \<lparr>FindFromCwdOrError = Inr ''/town'',
      findCurrentRig = (\<lambda>townRoot. Inr ''gastown''),
      Getwd = Inr ''/town/gastown'',
      NewFromWorkdir = (\<lambda>cwd. Inr ()),
      mq_List = (\<lambda>mq q. (q, None)),
      IsNotExist = (\<lambda>err. False),
      bd_List = (\<lambda>cwd. Inr example_issues),
      ParseMRFields = (\<lambda>issue. if Description issue = [] then None
         else Some \<lparr>Branch = Description issue, Target = ''main'', SourceIssue = [], Worker = []\<rparr>),
      mq_Submit = (\<lambda>mq q mr. (None, q @ [mr]))\<rparr>"

text \<open>Two sources that both define \<open>mol-engineer-in-box\<close>, and bindings for its title.\<close>

definition builtin_source :: "source_record list" where
  "builtin_source =
     [\<lparr>rec_id = Some ''mol-engineer-in-box'', rec_title = ''Engineer in Box: {{feature_name}}'',
       rec_description = ''Full workflow from design to merge.'', rec_labels = [''template''],
       rec_children = Some [\<lparr>step_title = ''Design'', step_description = [], step_needs = [], step_fan_in = False\<rparr>,
                            \<lparr>step_title = ''Implement'', step_description = [], step_needs = [1], step_fan_in = False\<rparr>],
       rec_issue_type = ''epic''\<rparr>,
      \<lparr>rec_id = None, rec_title = ''No id'', rec_description = [], rec_labels = [''template''],
       rec_children = Some [], rec_issue_type = ''task''\<rparr>,
      \<lparr>rec_id = Some ''mol-witness-patrol'', rec_title = ''Patrol'', rec_description = [],
       rec_labels = [''template''], rec_children = Some [], rec_issue_type = ''epic''\<rparr>]"

definition project_source :: "source_record list" where
  "project_source =
     [\<lparr>rec_id = Some ''mol-engineer-in-box'', rec_title = ''Build {{feature_name}}'',
       rec_description = [], rec_labels = [''template'', ''plugin''],
       rec_children = Some [], rec_issue_type = ''task''\<rparr>]"

definition builtin_engineer :: Template where
  "builtin_engineer =
     \<lparr>template_id = ''mol-engineer-in-box'', title = ''Engineer in Box: {{feature_name}}'',
      description = ''Full workflow from design to merge.'', labels = [''template''],
      children = [\<lparr>step_title = ''Design'', step_description = [], step_needs = [], step_fan_in = False\<rparr>,
                  \<lparr>step_title = ''Implement'', step_description = [], step_needs = [1], step_fan_in = False\<rparr>],
      issue_type = ''epic''\<rparr>"

definition project_engineer :: Template where
  "project_engineer =
     \<lparr>template_id = ''mol-engineer-in-box'', title = ''Build {{feature_name}}'',
      description = [], labels = [''template'', ''plugin''], children = [], issue_type = ''task''\<rparr>"

definition example_bindings :: "string \<rightharpoonup> string" where
  "example_bindings = [''feature_name'' \<mapsto> ''user auth'', ''unused'' \<mapsto> ''x'']"

section \<open>Properties of \<open>BeadsSyncBranchCheck.Fix\<close>\<close>

lemma HasPrefix_iff: "HasPrefix s p \<longleftrightarrow> (\<exists>r. s = p @ r)"
  by (induction s p rule: HasPrefix.induct) auto

lemma Contains_iff: "Contains s sub \<longleftrightarrow> (\<exists>a b. s = a @ sub @ b)"
proof (induction s)
  case Nil
  then show ?case by auto
next
  case (Cons c cs)
  show ?case
  proof
    assume "Contains (c # cs) sub"
    then consider "HasPrefix (c # cs) sub" | "Contains cs sub" by auto
    then show "\<exists>a b. c # cs = a @ sub @ b"
    proof cases
      case 1
      then obtain r where "c # cs = sub @ r" by (auto simp: HasPrefix_iff)
      then have "c # cs = [] @ sub @ r" by simp
      then show ?thesis by blast
    next
      case 2
      then obtain a b where "cs = a @ sub @ b" using Cons.IH by blast
      then have "c # cs = (c # a) @ sub @ b" by simp
      then show ?thesis by blast
    qed
  next
    assume "\<exists>a b. c # cs = a @ sub @ b"
    then obtain a b where ab: "c # cs = a @ sub @ b" by blast
    show "Contains (c # cs) sub"
    proof (cases a)
      case Nil
      then have "HasPrefix (c # cs) sub" using ab by (auto simp: HasPrefix_iff)
      then show ?thesis by simp
    next
      case (Cons a1 as)
      then have "cs = as @ sub @ b" using ab by simp
      then have "Contains cs sub" using Cons.IH by blast
      then show ?thesis by simp
    qed
  qed
qed

lemma Contains_sync_branch_line: "Contains (c @ sync_branch_line) ''sync-branch:''"
proof -
  have "c @ sync_branch_line = c @ ''sync-branch:'' @ ('' beads-sync'' @ [CHR 0x0A])"
    by (simp add: sync_branch_line_def)
  then show ?thesis unfolding Contains_iff by blast
qed

text \<open>
  Claim C10. \<open>Fix\<close> is idempotent. When the configuration file can be read and its
  content already contains \<open>sync-branch:\<close>, \<open>Fix\<close> returns \<open>nil\<close> and leaves the file
  system as it is. In particular, after a \<open>Fix\<close> that returned \<open>nil\<close> (whether it
  appended the line or found nothing to do), a second \<open>Fix\<close> returns \<open>nil\<close> and changes
  nothing: running it twice leaves what running it once leaves.
\<close>

theorem Fix_idempotent:
  "(ReadFile fs (configPath ctx) = Inr c \<and> Contains c ''sync-branch:'' \<longrightarrow> Fix ctx fs = (None, fs))
   \<and> (Fix ctx fs = (None, fs') \<longrightarrow> Fix ctx fs' = (None, fs'))"
proof (intro conjI impI)
  assume "ReadFile fs (configPath ctx) = Inr c \<and> Contains c ''sync-branch:''"
  then show "Fix ctx fs = (None, fs)" by (simp add: Fix_def)
next
  assume ok: "Fix ctx fs = (None, fs')"
  show "Fix ctx fs' = (None, fs')"
  proof (cases "RigName ctx = []")
    case True
    then show ?thesis by (simp add: Fix_def)
  next
    case False
    then obtain c where rd: "ReadFile fs (configPath ctx) = Inr c"
      using ok by (auto simp: Fix_def split: sum.splits)
    show ?thesis
    proof (cases "Contains c ''sync-branch:''")
      case True
      then have "fs' = fs" using ok rd False by (simp add: Fix_def)
      then show ?thesis using rd True False by (simp add: Fix_def)
    next
      case nc: False
      then obtain f where op: "OpenFile_append fs (configPath ctx) = Inr f"
        using ok rd False by (auto simp: Fix_def split: sum.splits)
      have wr: "WriteString fs (configPath ctx) f sync_branch_line = (None, fs')"
        using ok rd False nc op by (simp add: Fix_def)
      have nf: "nodes fs (configPath ctx) = Some (Regular f)"
        using op by (auto simp: OpenFile_append_def split: option.splits node.splits if_splits)
      have rf: "readable f" "contents f = c"
        using rd nf by (auto simp: ReadFile_def split: if_splits)
      have full: "length sync_branch_line \<le> room fs"
        using wr by (auto simp: WriteString_def Let_def split: if_splits)
      have "ReadFile fs' (configPath ctx) = Inr (c @ sync_branch_line)"
        using wr rf full by (auto simp: WriteString_def Let_def ReadFile_def split: if_splits)
      then show ?thesis using False Contains_sync_branch_line by (simp add: Fix_def)
    qed
  qed
qed

lemma configPath_example: "configPath example_ctx = ''/town/gastown/.beads/config.yaml''"
  by (simp add: configPath_def example_ctx_def filepath_Join_def)

lemma Fix_example: "Fix example_ctx example_fs = (None, example_fs_fixed)"
  by (simp add: Fix_def configPath_example ReadFile_def OpenFile_append_def WriteString_def Let_def
      sync_branch_line_def example_fs_def example_fs_fixed_def)
    (simp add: example_ctx_def)

lemma ReadFile_example_fixed:
  "ReadFile example_fs_fixed (configPath example_ctx) =
     Inr (''issue-prefix: gt'' @ [CHR 0x0A] @ ''sync-branch: beads-sync'' @ [CHR 0x0A])"
  by (simp add: ReadFile_def configPath_example example_fs_fixed_def)

theorem Fix_idempotent_witness:
  "Fix example_ctx example_fs = (None, example_fs_fixed) \<and>
   Fix example_ctx example_fs_fixed = (None, example_fs_fixed) \<and>
   ReadFile example_fs_fixed (configPath example_ctx) =
     Inr (''issue-prefix: gt'' @ [CHR 0x0A] @ ''sync-branch: beads-sync'' @ [CHR 0x0A]) \<and>
   Contains (''issue-prefix: gt'' @ [CHR 0x0A] @ ''sync-branch: beads-sync'' @ [CHR 0x0A]) ''sync-branch:''"
proof -
  have c: "Contains (''issue-prefix: gt'' @ [CHR 0x0A] @ ''sync-branch: beads-sync'' @ [CHR 0x0A]) ''sync-branch:''"
    by simp
  have twice: "Fix example_ctx example_fs_fixed = (None, example_fs_fixed)"
    using Fix_idempotent [where fs = example_fs and ctx = example_ctx and fs' = example_fs_fixed]
      Fix_example by blast
  have "Fix example_ctx example_fs_fixed = (None, example_fs_fixed)"
    using Fix_idempotent [where fs = example_fs_fixed and ctx = example_ctx and
        c = "''issue-prefix: gt'' @ [CHR 0x0A] @ ''sync-branch: beads-sync'' @ [CHR 0x0A]"]
      ReadFile_example_fixed c by blast
  with twice Fix_example ReadFile_example_fixed c show ?thesis by blast
qed

section \<open>Properties of \<open>runMqMigrate\<close>\<close>

lemma existingIDs_foldl:
  "foldl (\<lambda>m mr. m(MR_ID mr := True)) m0 ms i \<longleftrightarrow> m0 i \<or> i \<in> MR_ID ` set ms"
  by (induction ms arbitrary: m0) auto

lemma existingIDs_iff: "existingIDs ms i \<longleftrightarrow> i \<in> MR_ID ` set ms"
  by (simp add: existingIDs_def existingIDs_foldl)

lemma migrate_one_dry:
  "ls_queue (migrate_one C True rigName mq st issue) = ls_queue st \<and>
   ls_submits (migrate_one C True rigName mq st issue) = ls_submits st"
  by (simp add: migrate_one_def split: option.splits)

lemma loop_dry:
  "ls_queue (foldl (migrate_one C True rigName mq) st xs) = ls_queue st \<and>
   ls_submits (foldl (migrate_one C True rigName mq) st xs) = ls_submits st"
  by (induction xs arbitrary: st) (simp_all add: migrate_one_dry)

lemma migrate_one_submits:
  "ls_submits (migrate_one C False rigName mq st issue) =
     ls_submits st @ (case ParseMRFields C issue of None \<Rightarrow> [] | Some f \<Rightarrow> [mqEntry rigName issue f])"
  by (simp add: migrate_one_def split: option.splits prod.splits)

lemma loop_submits:
  "ls_submits (foldl (migrate_one C False rigName mq) st xs) =
     ls_submits st @ map (\<lambda>issue. mqEntry rigName issue (the (ParseMRFields C issue)))
       (filter (\<lambda>issue. ParseMRFields C issue \<noteq> None) xs)"
  by (induction xs arbitrary: st) (auto simp: migrate_one_submits)

lemma migrate_dry:
  "queue (migrate C True rigName mq ex all q) = q \<and> submits (migrate C True rigName mq ex all q) = []"
  by (simp add: migrate_def Let_def loop_dry)

lemma migrate_submits:
  "submits (migrate C False rigName mq ex all q) =
     map (\<lambda>issue. mqEntry rigName issue (the (ParseMRFields C issue)))
       (filter (\<lambda>issue. Type issue = ''merge-request'' \<and> Status issue = ''open'' \<and>
                  ID issue \<notin> MR_ID ` set ex \<and> ParseMRFields C issue \<noteq> None) all)"
  by (auto simp: migrate_def Let_def loop_submits existingIDs_iff filter_empty_conv intro!: arg_cong2[where f=map] filter_cong)

lemma migrate_one_dry_printed:
  "\<forall>l \<in> set (ls_printed st). \<not> reports_submit l \<Longrightarrow>
   \<forall>l \<in> set (ls_printed (migrate_one C True rigName mq st issue)).
      \<not> reports_submit l"
  by (auto simp: migrate_one_def split: option.splits)

lemma loop_dry_printed:
  "\<forall>l \<in> set (ls_printed st). \<not> reports_submit l \<Longrightarrow>
   \<forall>l \<in> set (ls_printed (foldl (migrate_one C True rigName mq) st xs)).
      \<not> reports_submit l"
proof (induction xs arbitrary: st)
  case Nil
  then show ?case by simp
next
  case (Cons x xs)
  show ?case
    using Cons.IH [OF migrate_one_dry_printed [OF Cons.prems]] by simp
qed

lemma migrate_dry_printed:
  "\<forall>l \<in> set (printed (migrate C True rigName mq ex all q)).
     \<not> reports_submit l"
proof -
  have "\<forall>l \<in> set (ls_printed (foldl (migrate_one C True rigName mq)
          \<lparr>ls_queue = q, ls_submits = [], ls_printed = [FoundToMigrate n], migrated = 0\<rparr> xs)).
        \<not> reports_submit l" for n xs
    by (rule loop_dry_printed) simp
  then show ?thesis
    by (auto simp: migrate_def Let_def)
qed

text \<open>
  Claim C8. With \<open>--dry-run\<close> set, \<open>mq.Submit\<close> is never called and the queue is left
  as it was; no printed line reports a submission, made or failed.
\<close>

theorem runMqMigrate_dry_run_frame:
  "queue (runMqMigrate C True q) = q \<and> submits (runMqMigrate C True q) = [] \<and>
   (\<forall>l \<in> set (printed (runMqMigrate C True q)). \<not> reports_submit l)"
proof -
  have "queue (runMqMigrate C True q) = q \<and> submits (runMqMigrate C True q) = []"
    by (simp add: runMqMigrate_def migrate_dry split: sum.splits prod.splits)
  moreover have "\<forall>l \<in> set (printed (runMqMigrate C True q)). \<not> reports_submit l"
  proof (cases "gather C q")
    case (Inl err)
    then show ?thesis by (simp add: runMqMigrate_def)
  next
    case (Inr r)
    obtain rigName mq ex all where "r = (rigName, mq, ex, all)" by (cases r) auto
    with Inr show ?thesis
      using migrate_dry_printed [of C rigName mq ex all q] by (simp add: runMqMigrate_def)
  qed
  ultimately show ?thesis by blast
qed

lemma gather_example:
  "gather example_collaborators example_queue = Inr (''gastown'', (), example_queue, example_issues)"
  by (simp add: gather_def example_collaborators_def)

lemma printed_dry_example:
  "printed (runMqMigrate example_collaborators True example_queue) =
     [FoundToMigrate 2, WouldMigrate ''gt-1'' ''Merge nux'' ''polecat/nux/gt-7'' ''main'',
      Skipping ''gt-5'', BlankLine, DryRunSummary 2, RunWithoutDryRun]"
  apply (simp add: runMqMigrate_def gather_example)
  apply (simp add: migrate_def Let_def example_issues_def example_queue_def existingIDs_def
      migrate_one_def example_collaborators_def)
  done

theorem runMqMigrate_dry_run_frame_witness:
  "queue (runMqMigrate example_collaborators True example_queue) = example_queue \<and>
   submits (runMqMigrate example_collaborators True example_queue) = [] \<and>
   printed (runMqMigrate example_collaborators True example_queue) =
     [FoundToMigrate 2, WouldMigrate ''gt-1'' ''Merge nux'' ''polecat/nux/gt-7'' ''main'',
      Skipping ''gt-5'', BlankLine, DryRunSummary 2, RunWithoutDryRun]"
  using runMqMigrate_dry_run_frame [where C = example_collaborators and q = example_queue]
    printed_dry_example
  by simp

text \<open>
  Claim C9. \<open>runMqMigrate\<close> submits a bead only if its type is \<open>merge-request\<close>, its
  status is \<open>open\<close>, its id is not among the ids \<open>mq.List\<close> returned and
  \<open>ParseMRFields\<close> gives fields for it; every other bead is skipped. When the command
  fails before it has the beads it submits nothing; otherwise, without \<open>--dry-run\<close>, the
  calls of \<open>mq.Submit\<close> are, in order, the entries built from exactly the beads that
  meet the four conditions, and with \<open>--dry-run\<close> there is none.
\<close>

theorem runMqMigrate_submits:
  "(case gather C q of
      Inl err \<Rightarrow> submits (runMqMigrate C dry q) = []
    | Inr (rigName, mq, existingMRs, allIssues) \<Rightarrow>
        submits (runMqMigrate C dry q) =
          (if dry then []
           else map (\<lambda>issue. mqEntry rigName issue (the (ParseMRFields C issue)))
                  (filter (\<lambda>issue. Type issue = ''merge-request'' \<and> Status issue = ''open'' \<and>
                             ID issue \<notin> MR_ID ` set existingMRs \<and> ParseMRFields C issue \<noteq> None)
                     allIssues)))"
proof (cases "gather C q")
  case (Inl err)
  then show ?thesis by (simp add: runMqMigrate_def)
next
  case (Inr r)
  obtain rigName mq existingMRs allIssues where r: "r = (rigName, mq, existingMRs, allIssues)"
    by (cases r) auto
  have run: "runMqMigrate C dry q = migrate C dry rigName mq existingMRs allIssues q"
    using Inr r by (simp add: runMqMigrate_def)
  show ?thesis
  proof (cases dry)
    case True
    then show ?thesis using Inr r run by (simp add: migrate_dry)
  next
    case False
    then show ?thesis using Inr r run by (simp add: migrate_submits)
  qed
qed

theorem runMqMigrate_submits_witness:
  "gather example_collaborators example_queue = Inr (''gastown'', (), example_queue, example_issues) \<and>
   submits (runMqMigrate example_collaborators False example_queue) =
     [\<lparr>MR_ID = ''gt-1'', MR_Branch = ''polecat/nux/gt-7'', MR_Target = ''main'',
       MR_SourceIssue = [], MR_Worker = ''nux'', MR_Rig = ''gastown'',
       MR_Title = ''Merge nux'', MR_Priority = 2\<rparr>]"
proof -
  have "submits (runMqMigrate example_collaborators False example_queue) =
      map (\<lambda>issue. mqEntry ''gastown'' issue (the (ParseMRFields example_collaborators issue)))
        (filter (\<lambda>issue. Type issue = ''merge-request'' \<and> Status issue = ''open'' \<and>
                   ID issue \<notin> MR_ID ` set example_queue \<and>
                   ParseMRFields example_collaborators issue \<noteq> None)
           example_issues)"
    using runMqMigrate_submits [where C = example_collaborators and q = example_queue and dry = False]
      gather_example
    by simp
  also have "\<dots> = [\<lparr>MR_ID = ''gt-1'', MR_Branch = ''polecat/nux/gt-7'', MR_Target = ''main'',
       MR_SourceIssue = [], MR_Worker = ''nux'', MR_Rig = ''gastown'',
       MR_Title = ''Merge nux'', MR_Priority = 2\<rparr>]"
    by (simp add: example_issues_def example_queue_def example_collaborators_def mqEntry_def
        extract_worker_def numeral_3_eq_3)
  finally show ?thesis using gather_example by simp
qed

section \<open>Properties of variable substitution\<close>

lemma substitute_missing:
  "\<exists>p \<in> set (placeholder_names ts). b p = None \<Longrightarrow>
   \<exists>p \<in> set (placeholder_names ts). b p = None \<and> substitute ts b = Inl (MissingVariable p)"
proof (induction ts)
  case Nil
  then show ?case by simp
next
  case (Cons t ts)
  show ?case
  proof (cases t)
    case (Text c)
    then have "\<exists>p \<in> set (placeholder_names ts). b p = None" using Cons.prems by simp
    then obtain p where "p \<in> set (placeholder_names ts)" "b p = None"
      "substitute ts b = Inl (MissingVariable p)" using Cons.IH by blast
    then show ?thesis using Text by auto
  next
    case (Placeholder name)
    show ?thesis
    proof (cases "b name")
      case None
      then show ?thesis using Placeholder by simp
    next
      case (Some v)
      then have "\<exists>p \<in> set (placeholder_names ts). b p = None" using Cons.prems Placeholder by auto
      then obtain p where "p \<in> set (placeholder_names ts)" "b p = None"
        "substitute ts b = Inl (MissingVariable p)" using Cons.IH by blast
      then show ?thesis using Placeholder Some by auto
    qed
  qed
qed

lemma substitute_bound:
  "\<forall>p \<in> set (placeholder_names ts). b p \<noteq> None \<Longrightarrow> \<exists>out. substitute ts b = Inr out"
  by (induction ts b rule: substitute.induct) (auto split: sum.splits option.splits)

lemma substitute_cong:
  "\<forall>p \<in> set (placeholder_names ts). b p = b' p \<Longrightarrow> substitute ts b = substitute ts b'"
  by (induction ts b rule: substitute.induct) (auto split: sum.splits option.splits)

text \<open>
  Claim C7. For every text and every binding map: when some placeholder of the text has
  no binding, \<open>resolve\<close> fails with \<open>MissingVariable\<close> naming a placeholder of the text
  that has no binding; when every placeholder of the text is bound, \<open>resolve\<close>
  succeeds; and bindings the text does not refer to are ignored: two binding maps that
  agree on the placeholders of the text give the same result.
\<close>

theorem resolve_missing_variable:
  "((\<exists>p \<in> set (placeholders text). bindings p = None) \<longrightarrow>
      (\<exists>p \<in> set (placeholders text). bindings p = None \<and>
         resolve text bindings = Inl (MissingVariable p))) \<and>
   ((\<forall>p \<in> set (placeholders text). bindings p \<noteq> None) \<longrightarrow>
      (\<exists>out. resolve text bindings = Inr out)) \<and>
   ((\<forall>p \<in> set (placeholders text). bindings p = bindings' p) \<longrightarrow>
      resolve text bindings = resolve text bindings')"
proof (intro conjI impI)
  assume "\<exists>p \<in> set (placeholders text). bindings p = None"
  then show "\<exists>p \<in> set (placeholders text). bindings p = None \<and>
      resolve text bindings = Inl (MissingVariable p)"
    unfolding placeholders_def resolve_def by (rule substitute_missing)
next
  assume "\<forall>p \<in> set (placeholders text). bindings p \<noteq> None"
  then show "\<exists>out. resolve text bindings = Inr out"
    unfolding placeholders_def resolve_def by (rule substitute_bound)
next
  assume "\<forall>p \<in> set (placeholders text). bindings p = bindings' p"
  then show "resolve text bindings = resolve text bindings'"
    unfolding placeholders_def resolve_def by (rule substitute_cong)
qed

lemma tokens_example:
  "tokens ''Build {{feature_name}}'' =
     map Text ''Build '' @ [Placeholder ''feature_name'']"
  by simp

lemma placeholders_example: "placeholders ''Build {{feature_name}}'' = [''feature_name'']"
  by (simp add: placeholders_def)

theorem resolve_missing_variable_witness:
  "resolve ''Build {{feature_name}}'' Map.empty = Inl (MissingVariable ''feature_name'') \<and>
   resolve ''Build {{feature_name}}'' example_bindings = Inr ''Build user auth'' \<and>
   resolve ''Build {{feature_name}}'' [''feature_name'' \<mapsto> ''user auth''] =
     resolve ''Build {{feature_name}}'' example_bindings"
proof -
  have "\<exists>p \<in> set (placeholders ''Build {{feature_name}}''). Map.empty p = (None :: string option)"
    by (simp add: placeholders_example)
  then have "\<exists>p \<in> set (placeholders ''Build {{feature_name}}'').
      resolve ''Build {{feature_name}}'' Map.empty = Inl (MissingVariable p)"
    using resolve_missing_variable
      [of "''Build {{feature_name}}''" Map.empty]
    by blast
  then have missing:
    "resolve ''Build {{feature_name}}'' Map.empty = Inl (MissingVariable ''feature_name'')"
    by (simp add: placeholders_example)
  have "\<forall>p \<in> set (placeholders ''Build {{feature_name}}''). example_bindings p \<noteq> None"
    by (simp add: placeholders_example example_bindings_def)
  then have "\<exists>out. resolve ''Build {{feature_name}}'' example_bindings = Inr out"
    using resolve_missing_variable
      [of "''Build {{feature_name}}''" example_bindings]
    by blast
  then have bound: "resolve ''Build {{feature_name}}'' example_bindings = Inr ''Build user auth''"
    by (simp add: resolve_def example_bindings_def)
  have "\<forall>p \<in> set (placeholders ''Build {{feature_name}}'').
      [''feature_name'' \<mapsto> ''user auth''] p = example_bindings p"
    by (simp add: placeholders_example example_bindings_def)
  then have "resolve ''Build {{feature_name}}'' [''feature_name'' \<mapsto> ''user auth''] =
      resolve ''Build {{feature_name}}'' example_bindings"
    using resolve_missing_variable
      [of "''Build {{feature_name}}''" "[''feature_name'' \<mapsto> ''user auth'']" example_bindings]
    by blast
  with missing bound show ?thesis by blast
qed

section \<open>Properties of the template catalog\<close>

lemma find_append_cases:
  "find P (xs @ ys) = (case find P xs of None \<Rightarrow> find P ys | Some x \<Rightarrow> Some x)"
  by (induction xs) auto

lemma load_source_foldl:
  "foldl load_record m source x =
     (case find (\<lambda>t. template_id t = x) (rev (List.map_filter read_record source)) of
        None \<Rightarrow> m x | Some t \<Rightarrow> Some t)"
proof (induction source arbitrary: m)
  case Nil
  then show ?case by simp
next
  case (Cons r rs)
  have step: "foldl load_record m (r # rs) x =
      (case find (\<lambda>t. template_id t = x) (rev (List.map_filter read_record rs)) of
         None \<Rightarrow> load_record m r x | Some t \<Rightarrow> Some t)"
    using Cons.IH [of "load_record m r"] by simp
  show ?case
  proof (cases "read_record r")
    case None
    then have "load_record m r = m" by (simp add: load_record_def)
    with None show ?thesis by (subst step) (simp split: option.splits)
  next
    case (Some t)
    then have "load_record m r x = (if template_id t = x then Some t else m x)"
      by (simp add: load_record_def)
    with Some show ?thesis
      by (subst step) (simp add: find_append_cases split: option.splits)
  qed
qed

lemma load_source_eq:
  "load_source m source x = (case defined_in source x of None \<Rightarrow> m x | Some t \<Rightarrow> Some t)"
  by (simp add: load_source_def defined_in_def load_source_foldl)

lemma load_foldl:
  "foldl load_source m sources x =
     (case find (\<lambda>source. defined_in source x \<noteq> None) (rev sources) of
        None \<Rightarrow> m x
      | Some source \<Rightarrow> defined_in source x)"
proof (induction sources arbitrary: m)
  case Nil
  then show ?case by simp
next
  case (Cons s ss)
  have step: "foldl load_source m (s # ss) x =
      (case find (\<lambda>source. defined_in source x \<noteq> None) (rev ss) of
         None \<Rightarrow> load_source m s x
       | Some source \<Rightarrow> defined_in source x)"
    using Cons.IH [of "load_source m s"] by simp
  show ?case
    by (subst step) (auto simp: find_append_cases load_source_eq split: option.splits)
qed

text \<open>
  Claim C6. For every ordered sequence of sources and every template id, \<open>load\<close>
  yields the definition the latest source defining the id gives to it, as a whole
  record, and nothing when no source defines it. So for two sources \<open>A\<close> and \<open>B\<close>
  that both define an id, loading \<open>[A, B]\<close> yields the definition of \<open>B\<close> and loading
  \<open>[B, A]\<close> yields the definition of \<open>A\<close>.
\<close>

theorem load_latest_source_wins:
  "load sources x =
     (case find (\<lambda>source. defined_in source x \<noteq> None) (rev sources) of
        None \<Rightarrow> None
      | Some source \<Rightarrow> defined_in source x) \<and>
   (defined_in A x = Some a \<and> defined_in B x = Some b \<longrightarrow>
      load [A, B] x = Some b \<and> load [B, A] x = Some a)"
proof -
  have latest: "load sources x =
     (case find (\<lambda>source. defined_in source x \<noteq> None) (rev sources) of
        None \<Rightarrow> None
      | Some source \<Rightarrow> defined_in source x)" for sources
    by (simp add: load_def load_foldl)
  have "load [A, B] x = Some b \<and> load [B, A] x = Some a"
    if "defined_in A x = Some a \<and> defined_in B x = Some b"
    using that by (simp add: latest)
  with latest show ?thesis by blast
qed

lemma defined_in_builtin:
  "defined_in builtin_source ''mol-engineer-in-box'' = Some builtin_engineer"
  by (simp add: defined_in_def builtin_source_def builtin_engineer_def read_record_def)

lemma defined_in_project:
  "defined_in project_source ''mol-engineer-in-box'' = Some project_engineer"
  by (simp add: defined_in_def project_source_def project_engineer_def read_record_def)

theorem load_latest_source_wins_witness:
  "defined_in builtin_source ''mol-engineer-in-box'' = Some builtin_engineer \<and>
   defined_in project_source ''mol-engineer-in-box'' = Some project_engineer \<and>
   load [builtin_source, project_source] ''mol-engineer-in-box'' = Some project_engineer \<and>
   load [project_source, builtin_source] ''mol-engineer-in-box'' = Some builtin_engineer"
  using load_latest_source_wins
    [where A = builtin_source and B = project_source and x = "''mol-engineer-in-box''"
       and a = builtin_engineer and b = project_engineer]
    defined_in_builtin defined_in_project
  by blast

end
